theory Spec2Isabelle
  imports Complex_Main "HOL-Library.Sublist"
begin

section \<open>Python values\<close>

text \<open>
  The program is \<open>application.py\<close>: a Streamlit page whose upload handler reads a file into
  a pandas \<open>DataFrame\<close>, drops incomplete and duplicate rows, splits the rows by a
  \<open>timestamp\<close> column and offers the result as CSV and gzip downloads.

  A Python \<open>str\<close> is a \<open>string\<close>, one \<open>char\<close> per character; \<open>bytes\<close> are a
  \<open>string\<close> too, one \<open>char\<close> per byte. Only characters below code point 256 are
  represented, and only the ASCII letters have a lower case. A Python \<open>int\<close> is an
  \<open>int\<close>. An exception is the message that \<open>f"{e}"\<close> prints for it.
\<close>

type_synonym bytes = string

type_synonym exn = string

fun digits :: "nat \<Rightarrow> string" where
  "digits n =
     (if n < 10 then [''0123456789'' ! n]
      else digits (n div 10) @ [''0123456789'' ! (n mod 10)])"

text \<open>\<open>str(i)\<close>, as an f-string interpolates an \<open>int\<close>.\<close>

definition str_int :: "int \<Rightarrow> string" where
  "str_int i = (if i < 0 then CHR ''-'' # digits (nat (- i)) else digits (nat i))"

definition lower_char :: "char \<Rightarrow> char" where
  "lower_char c =
     (case map_of (zip ''ABCDEFGHIJKLMNOPQRSTUVWXYZ'' ''abcdefghijklmnopqrstuvwxyz'') c of
        Some l \<Rightarrow> l
      | None \<Rightarrow> c)"

definition lower :: "string \<Rightarrow> string" where
  "lower s = map lower_char s"

text \<open>\<open>s.split(sep)\<close> for a one-character separator: never an empty list.\<close>

fun split :: "char \<Rightarrow> string \<Rightarrow> string list" where
  "split sep [] = [[]]"
| "split sep (c # cs) =
     (if c = sep then [] # split sep cs
      else (let ws = split sep cs in (c # hd ws) # tl ws))"

text \<open>
  \<open>str.isspace\<close> on one character: tab to carriage return, the four separators
  \<open>0x1c\<close> to \<open>0x1f\<close>, the space, NEL and the no-break space.
\<close>

definition isspace :: "char \<Rightarrow> bool" where
  "isspace c = (let n = (of_char c :: nat) in
     (9 \<le> n \<and> n \<le> 13) \<or> (28 \<le> n \<and> n \<le> 32) \<or> n = 133 \<or> n = 160)"

definition strip :: "string \<Rightarrow> string" where
  "strip s = rev (dropWhile isspace (rev (dropWhile isspace s)))"

text \<open>
  \<open>str.splitlines\<close>: a line ends at \<open>\n\<close>, \<open>\r\<close>, \<open>\r\n\<close> (one boundary), \<open>\v\<close>, \<open>\f\<close>,
  \<open>0x1c\<close> to \<open>0x1e\<close> and NEL; the boundaries are dropped, and a boundary at the very end
  opens no further line.
\<close>

definition is_linebreak :: "char \<Rightarrow> bool" where
  "is_linebreak c = (let n = (of_char c :: nat) in
     (10 \<le> n \<and> n \<le> 13) \<or> (28 \<le> n \<and> n \<le> 30) \<or> n = 133)"

fun splitlines_from :: "string \<Rightarrow> string \<Rightarrow> string list" where
  "splitlines_from cur [] = (if cur = [] then [] else [cur])"
| "splitlines_from cur (c # cs) =
     (if c = CHR 0x0D \<and> cs \<noteq> [] \<and> hd cs = CHR 0x0A then cur # splitlines_from [] (tl cs)
      else if is_linebreak c then cur # splitlines_from [] cs
      else splitlines_from (cur @ [c]) cs)"

definition splitlines :: "string \<Rightarrow> string list" where
  "splitlines s = splitlines_from [] s"

section \<open>Floats and \<open>bytesize_fmt\<close>\<close>

text \<open>
  A Python \<open>float\<close> is an IEEE double, modelled by the rational it denotes.
  \<open>float_of_int\<close> is the conversion \<open>int / float\<close> and \<open>format(int, "f")\<close> perform: the
  magnitude is rounded to 53 significant bits, ties to even, and a result beyond the
  double range raises \<open>OverflowError\<close>. Dividing a double of magnitude at least 1 by
  \<open>1024.0\<close> only lowers its exponent, so the division is exact.
\<close>

fun bit_length :: "nat \<Rightarrow> nat" where
  "bit_length n = (if n = 0 then 0 else Suc (bit_length (n div 2)))"

definition round_half_even :: "rat \<Rightarrow> int" where
  "round_half_even x =
     (let f = \<lfloor>x\<rfloor>; d = x - of_int f in
      if d < 1 / 2 then f else if 1 / 2 < d then f + 1 else if even f then f else f + 1)"

definition float_of_int :: "int \<Rightarrow> exn + rat" where
  "float_of_int i =
     (let m = nat \<bar>i\<bar>;
          e = bit_length m - 53;
          r = round_half_even (of_nat m / 2 ^ e) * 2 ^ e
      in if 2 ^ 1024 \<le> r then Inl ''int too large to convert to float''
         else Inr (of_int (sgn i * r)))"

text \<open>
  \<open>f"{x:W.Pf}"\<close>: the double is rounded correctly (ties to even) to \<open>P\<close> decimals, printed
  in full without an exponent, and padded with spaces on the left to width \<open>W\<close>;
  \<open>f"{x:.Pf}"\<close> is width 0.
\<close>

definition format_f :: "nat \<Rightarrow> nat \<Rightarrow> rat \<Rightarrow> string" where
  "format_f width prec x =
     (let q = nat (round_half_even (\<bar>x\<bar> * 10 ^ prec));
          frac_digits = digits (q mod 10 ^ prec);
          body = digits (q div 10 ^ prec) @
            (if prec = 0 then []
             else CHR ''.'' # replicate (prec - length frac_digits) CHR ''0'' @ frac_digits);
          s = (if x < 0 then CHR ''-'' # body else body)
      in replicate (width - length s) CHR '' '' @ s)"

text \<open>
  \<open>num\<close> starts as the \<open>int\<close> it was called with and is a \<open>float\<close> from the first
  \<open>num /= 1024.0\<close> on.
\<close>

datatype number = PyInt int | PyFloat rat

fun abs_number :: "number \<Rightarrow> rat" where
  "abs_number (PyInt i) = of_int \<bar>i\<bar>"
| "abs_number (PyFloat x) = \<bar>x\<bar>"

fun as_float :: "number \<Rightarrow> exn + rat" where
  "as_float (PyInt i) = float_of_int i"
| "as_float (PyFloat x) = Inr x"

text \<open>
  The loop of \<open>bytesize_fmt\<close> over the units still to try, and the \<open>return\<close> after it:
  \<^verbatim>\<open>
  for unit in ["", "K", "M", "G", "T"]:
      if abs(num) < 1024.0:
          return f"{num:3.2f} {unit}{suffix}"
      num /= 1024.0
  return f"{num:.1f} P{suffix}"
  \<close>
\<close>

fun bytesize_units :: "string list \<Rightarrow> number \<Rightarrow> string \<Rightarrow> exn + string" where
  "bytesize_units [] num sfx =
     (case as_float num of
        Inl e \<Rightarrow> Inl e
      | Inr x \<Rightarrow> Inr (format_f 0 1 x @ '' P'' @ sfx))"
| "bytesize_units (u # units) num sfx =
     (if abs_number num < 1024 then
        (case as_float num of
           Inl e \<Rightarrow> Inl e
         | Inr x \<Rightarrow> Inr (format_f 3 2 x @ '' '' @ u @ sfx))
      else
        (case as_float num of
           Inl e \<Rightarrow> Inl e
         | Inr x \<Rightarrow> bytesize_units units (PyFloat (x / 1024)) sfx))"

definition bytesize_fmt :: "int \<Rightarrow> exn + string" where
  "bytesize_fmt num = bytesize_units ['''', ''K'', ''M'', ''G'', ''T''] (PyInt num) ''B''"

section \<open>Data frames\<close>

text \<open>
  A cell of a \<open>DataFrame\<close> is missing (\<open>NaN\<close>, \<open>None\<close>, \<open>NaT\<close>: what \<open>isna\<close> accepts), a
  \<open>str\<close>, a timestamp (nanoseconds since the epoch, and the UTC offset in minutes when
  the timestamp is time-zone-aware) or another scalar of type \<open>'n\<close> (a number, a
  boolean). A frame is its column labels and its rows in order, each row holding one
  cell per column.
\<close>

datatype 'n cell = NA | Str string | Num 'n | Datetime int "int option"

record 'n frame =
  columns :: "string list"
  rows :: "'n cell list list"

definition empty_frame :: "'n frame" where
  "empty_frame = \<lparr>columns = [], rows = []\<rparr>"

definition len :: "'n frame \<Rightarrow> int" where
  "len df = int (length (rows df))"

definition head :: "'n frame \<Rightarrow> 'n frame" where
  "head df = df\<lparr>rows := take 5 (rows df)\<rparr>"

text \<open>\<open>df[keep]\<close> for a boolean series \<open>keep\<close> aligned with the rows.\<close>

definition boolean_index :: "'n frame \<Rightarrow> bool list \<Rightarrow> 'n frame" where
  "boolean_index df keep = df\<lparr>rows := map fst (filter snd (zip (rows df) keep))\<rparr>"

definition isna :: "'n cell \<Rightarrow> bool" where
  "isna c = (case c of NA \<Rightarrow> True | _ \<Rightarrow> False)"

text \<open>\<open>df.dropna()\<close>: with the defaults, the rows in which no cell is missing.\<close>

definition dropna :: "'n frame \<Rightarrow> 'n frame" where
  "dropna df = boolean_index df (map (\<lambda>r. \<not> list_ex isna r) (rows df))"

text \<open>
  \<open>df.empty\<close>: one of the two axes has length 0, so the frame has no column or no row.
\<close>

definition frame_empty :: "'n frame \<Rightarrow> bool" where
  "frame_empty df = (columns df = [] \<or> rows df = [])"

text \<open>
  \<open>df.duplicated()\<close> marks a row that equals an earlier row of the frame.
  \<open>df.drop_duplicates()\<close> begins with \<open>if self.empty: return self.copy()\<close> and is
  \<open>df[~df.duplicated()]\<close> otherwise: a frame without columns keeps all its rows.
\<close>

fun duplicated_from :: "'a list \<Rightarrow> 'a list \<Rightarrow> bool list" where
  "duplicated_from seen [] = []"
| "duplicated_from seen (r # rs) = (r \<in> set seen) # duplicated_from (seen @ [r]) rs"

definition duplicated :: "'n frame \<Rightarrow> bool list" where
  "duplicated df = duplicated_from [] (rows df)"

definition drop_duplicates :: "'n frame \<Rightarrow> 'n frame" where
  "drop_duplicates df =
     (if frame_empty df then df else boolean_index df (map Not (duplicated df)))"

fun index_of :: "'a \<Rightarrow> 'a list \<Rightarrow> nat" where
  "index_of x [] = 0"
| "index_of x (y # ys) = (if x = y then 0 else Suc (index_of x ys))"

definition cell_at :: "'n cell list \<Rightarrow> nat \<Rightarrow> 'n cell" where
  "cell_at r i = (if i < length r then r ! i else NA)"

text \<open>\<open>df[label]\<close>: the series of the column, for a label the frame has once.\<close>

definition get_column :: "'n frame \<Rightarrow> string \<Rightarrow> 'n cell list" where
  "get_column df label = map (\<lambda>r. cell_at r (index_of label (columns df))) (rows df)"

text \<open>\<open>df[label] = series\<close>: replaces the column, or appends it when the label is new.\<close>

definition set_column :: "'n frame \<Rightarrow> string \<Rightarrow> 'n cell list \<Rightarrow> 'n frame" where
  "set_column df label series =
     (if label \<in> set (columns df) then
        df\<lparr>rows := map (\<lambda>(r, c). r[index_of label (columns df) := c]) (zip (rows df) series)\<rparr>
      else
        df\<lparr>columns := columns df @ [label],
           rows := map (\<lambda>(r, c). r @ [c]) (zip (rows df) series)\<rparr>)"

section \<open>The libraries the page calls\<close>

text \<open>
  The readers, the CSV writer, the compressor, the timestamp parser and the clock are
  library code: the model takes them as parameters. A reader raises (\<open>Inl\<close>) or returns
  (\<open>Inr\<close>). A PDF page is what its \<open>extract_text()\<close> does: it raises, or returns a \<open>str\<close> or
  \<open>None\<close>. A DOCX document is the texts of its paragraphs. \<open>parse_datetime\<close> is the
  conversion \<open>pd.to_datetime\<close> applies to one cell that is neither missing nor a
  timestamp: \<open>None\<close> where it cannot convert, else the instant and the UTC offset the
  value carries, if any. \<open>conversion_error\<close> is the exception \<open>pd.to_datetime\<close> raises
  for a column, if it raises, and \<open>comparison_error\<close> the \<open>TypeError\<close> of comparing a
  time-zone-aware series with a \<open>datetime\<close> without time zone. \<open>now\<close> is what
  \<open>datetime.now()\<close> returns, in nanoseconds since the epoch.
\<close>

type_synonym page = "exn + string option"

record 'n library =
  read_csv :: "bytes \<Rightarrow> exn + 'n frame"
  read_excel :: "bytes \<Rightarrow> exn + 'n frame"
  read_json :: "bytes \<Rightarrow> exn + 'n frame"
  decode_utf8 :: "bytes \<Rightarrow> exn + string"
  PdfReader :: "bytes \<Rightarrow> exn + page list"
  Document :: "bytes \<Rightarrow> exn + string list"
  to_csv :: "'n frame \<Rightarrow> string"
  encode_utf8 :: "string \<Rightarrow> bytes"
  gzip_compress :: "bytes \<Rightarrow> bytes"
  parse_datetime :: "'n cell \<Rightarrow> (int \<times> int option) option"
  conversion_error :: "'n cell list \<Rightarrow> exn option"
  comparison_error :: "'n cell list \<Rightarrow> exn"
  now :: int

record uploaded_file =
  name :: string
  content :: bytes

section \<open>What the page shows\<close>

text \<open>
  The calls on \<open>st\<close> that leave something on the page, in the order they run. The emoji
  that open four of the messages are left out of the texts.
\<close>

datatype 'n ui =
    Error string
  | Info string
  | Success string
  | Warning string
  | Markdown string
  | Dataframe "'n frame"
  | Metric string string
  | Download_button string bytes string string

text \<open>
  How a call ends: it returns, it raises an \<open>Exception\<close>, or \<open>st.stop()\<close> ends the script
  run (Streamlit's stop is no \<open>Exception\<close>, so \<open>except Exception\<close> lets it pass).
\<close>

datatype 'a outcome = Returned 'a | Raised exn | Stopped

section \<open>\<open>dataframe_to_csv_bytes\<close> and \<open>read_uploaded_file\<close>\<close>

definition dataframe_to_csv_bytes :: "'n library \<Rightarrow> 'n frame \<Rightarrow> bytes" where
  "dataframe_to_csv_bytes lib df = encode_utf8 lib (to_csv lib df)"

text \<open>
  \<open>pd.DataFrame([line.strip() for line in text_content.splitlines()],
  columns=['text_content'])\<close>, the frame the three text branches build.
\<close>

definition text_frame :: "string \<Rightarrow> 'n frame" where
  "text_frame text_content =
     \<lparr>columns = [''text_content''],
      rows = map (\<lambda>line. [Str (strip line)]) (splitlines text_content)\<rparr>"

text \<open>
  The loop over the pages of a PDF,
  \<open>text_content += page.extract_text() or ""\<close>, from the pages still to read.
\<close>

fun extract_pages :: "page list \<Rightarrow> string \<Rightarrow> exn + string" where
  "extract_pages [] text_content = Inr text_content"
| "extract_pages (page # pages) text_content =
     (case page of
        Inl e \<Rightarrow> Inl e
      | Inr extracted \<Rightarrow>
          extract_pages pages
            (text_content @ (case extracted of None \<Rightarrow> [] | Some s \<Rightarrow> s)))"

text \<open>\<open>sep.join(parts)\<close>.\<close>

fun join :: "string \<Rightarrow> string list \<Rightarrow> string" where
  "join sep [] = []"
| "join sep [p] = p"
| "join sep (p # q # ps) = p @ sep @ join sep (q # ps)"

definition of_reader :: "exn + 'a \<Rightarrow> 'a outcome" where
  "of_reader r = (case r of Inl e \<Rightarrow> Raised e | Inr x \<Rightarrow> Returned x)"

definition file_extension :: "uploaded_file \<Rightarrow> string" where
  "file_extension uploaded = lower (last (split CHR ''.'' (name uploaded)))"

definition read_uploaded_file ::
    "'n library \<Rightarrow> uploaded_file \<Rightarrow> 'n ui list \<times> 'n frame outcome" where
  "read_uploaded_file lib uploaded =
     (if file_extension uploaded = ''csv'' then
        ([], of_reader (read_csv lib (content uploaded)))
      else if file_extension uploaded = ''xlsx'' then
        ([], of_reader (read_excel lib (content uploaded)))
      else if file_extension uploaded = ''json'' then
        ([], of_reader (read_json lib (content uploaded)))
      else if file_extension uploaded = ''txt'' then
        (case decode_utf8 lib (content uploaded) of
           Inl e \<Rightarrow> ([], Raised e)
         | Inr text_content \<Rightarrow> ([], Returned (text_frame text_content)))
      else if file_extension uploaded = ''pdf'' then
        (case PdfReader lib (content uploaded) of
           Inl e \<Rightarrow> ([], Raised e)
         | Inr pages \<Rightarrow>
             (case extract_pages pages [] of
                Inl e \<Rightarrow> ([], Raised e)
              | Inr text_content \<Rightarrow> ([], Returned (text_frame text_content))))
      else if file_extension uploaded = ''docx'' then
        (case Document lib (content uploaded) of
           Inl e \<Rightarrow> ([], Raised e)
         | Inr paragraphs \<Rightarrow>
             ([], Returned (text_frame (join [CHR 0x0A] paragraphs))))
      else
        ([Error (''Unsupported file type: .'' @ file_extension uploaded)], Stopped))"

section \<open>The upload handler\<close>

text \<open>
  The cleaning block of the handler:
  \<^verbatim>\<open>
  before = len(df)
  df = df.dropna()
  after_na = len(df)
  df = df.drop_duplicates()
  after_dup = len(df)
  removed_na = before - after_na
  removed_dup = after_na - after_dup
  \<close>
  It yields the cleaned frame, \<open>removed_na\<close> and \<open>removed_dup\<close>.
\<close>

definition clean :: "'n frame \<Rightarrow> 'n frame \<times> int \<times> int" where
  "clean df =
     (let before = len df;
          df1 = dropna df;
          after_na = len df1;
          df2 = drop_duplicates df1;
          after_dup = len df2;
          removed_na = before - after_na;
          removed_dup = after_na - after_dup
      in (df2, removed_na, removed_dup))"

text \<open>
  \<open>pd.to_datetime(series, errors="coerce")\<close>. The call converts the column as a whole
  and raises for some columns whatever \<open>errors\<close> says (values with different UTC
  offsets, a dtype it refuses): \<open>conversion_error\<close> of the library is that exception.
  Otherwise every cell is converted: a missing cell stays missing (\<open>NaT\<close>), and so does
  one that cannot be converted; a converted value keeps the UTC offset it was written
  with.
\<close>

definition convert_cell ::
    "('n cell \<Rightarrow> (int \<times> int option) option) \<Rightarrow> 'n cell \<Rightarrow> 'n cell" where
  "convert_cell parse c =
     (case c of
        NA \<Rightarrow> NA
      | Datetime t z \<Rightarrow> Datetime t z
      | _ \<Rightarrow> (case parse c of None \<Rightarrow> NA | Some (t, z) \<Rightarrow> Datetime t z))"

definition to_datetime :: "'n library \<Rightarrow> 'n cell list \<Rightarrow> exn + 'n cell list" where
  "to_datetime lib series =
     (case conversion_error lib series of
        Some e \<Rightarrow> Inl e
      | None \<Rightarrow> Inr (map (convert_cell (parse_datetime lib)) series))"

text \<open>
  \<open>series >= cutoff\<close> and \<open>series < cutoff\<close> for the cutoff of the handler, a
  \<open>datetime\<close> without time zone. A series that holds a time-zone-aware timestamp cannot
  be compared with it: the comparison raises \<open>TypeError\<close>, \<open>comparison_error\<close> of the
  library. Otherwise the comparison is made cell by cell, and is \<open>False\<close> on \<open>NaT\<close>.
\<close>

definition aware :: "'n cell \<Rightarrow> bool" where
  "aware c = (case c of Datetime t (Some z) \<Rightarrow> True | _ \<Rightarrow> False)"

definition ge_cutoff :: "int \<Rightarrow> 'n cell \<Rightarrow> bool" where
  "ge_cutoff cutoff c = (case c of Datetime t z \<Rightarrow> cutoff \<le> t | _ \<Rightarrow> False)"

definition lt_cutoff :: "int \<Rightarrow> 'n cell \<Rightarrow> bool" where
  "lt_cutoff cutoff c = (case c of Datetime t z \<Rightarrow> t < cutoff | _ \<Rightarrow> False)"

definition series_ge :: "'n library \<Rightarrow> 'n cell list \<Rightarrow> int \<Rightarrow> exn + bool list" where
  "series_ge lib series cutoff =
     (if list_ex aware series then Inl (comparison_error lib series)
      else Inr (map (ge_cutoff cutoff) series))"

definition series_lt :: "'n library \<Rightarrow> 'n cell list \<Rightarrow> int \<Rightarrow> exn + bool list" where
  "series_lt lib series cutoff =
     (if list_ex aware series then Inl (comparison_error lib series)
      else Inr (map (lt_cutoff cutoff) series))"

text \<open>\<open>timedelta(days=d)\<close> in nanoseconds.\<close>

definition timedelta_days :: "int \<Rightarrow> int" where
  "timedelta_days d = d * 86400 * 1000000000"

text \<open>
  The partition block of the handler. It yields what it shows and, unless a line of
  it raises, the frame (its \<open>timestamp\<close> column converted), \<open>hot_data\<close> and \<open>cold_data\<close>:
  \<^verbatim>\<open>
  if "timestamp" in df.columns:
      df["timestamp"] = pd.to_datetime(df["timestamp"], errors="coerce")
      cutoff = datetime.now() - timedelta(days=30)
      hot_data = df[df["timestamp"] >= cutoff]
      cold_data = df[df["timestamp"] < cutoff]
  else:
      st.warning("No 'timestamp' column found. Skipping hot/cold data distribution.")
      hot_data, cold_data = pd.DataFrame(), pd.DataFrame()
  \<close>
\<close>

definition hot_cold ::
    "'n library \<Rightarrow> 'n frame \<Rightarrow>
     'n ui list \<times> (exn + 'n frame \<times> 'n frame \<times> 'n frame)" where
  "hot_cold lib df =
     (if ''timestamp'' \<in> set (columns df) then
        (case to_datetime lib (get_column df ''timestamp'') of
           Inl e \<Rightarrow> ([], Inl e)
         | Inr converted \<Rightarrow>
             (let df1 = set_column df ''timestamp'' converted;
                  cutoff = now lib - timedelta_days 30
              in case series_ge lib (get_column df1 ''timestamp'') cutoff of
                   Inl e \<Rightarrow> ([], Inl e)
                 | Inr ge \<Rightarrow>
                     (case series_lt lib (get_column df1 ''timestamp'') cutoff of
                        Inl e \<Rightarrow> ([], Inl e)
                      | Inr lt \<Rightarrow>
                          ([], Inr (df1, boolean_index df1 ge, boolean_index df1 lt)))))
      else
        ([Warning ''No 'timestamp' column found. Skipping hot/cold data distribution.''],
         Inr (df, empty_frame, empty_frame)))"

text \<open>
  The handler from \<open>read_uploaded_file\<close> to the download buttons, inside
  \<open>try: ... except Exception as e: st.error(f"An error occurred: {e}")\<close>. It yields what
  the page shows and whether the script run was stopped.
\<close>

definition report :: "'n frame \<Rightarrow> bytes \<Rightarrow> bytes \<Rightarrow> 'n ui list" where
  "report df processed_csv compressed =
     [Metric ''Rows'' (str_int (len df))] @
     (case bytesize_fmt (int (length processed_csv)) of
        Inl e \<Rightarrow> [Error (''An error occurred: '' @ e)]
      | Inr csv_size \<Rightarrow>
          Metric ''CSV Size'' csv_size #
          (case bytesize_fmt (int (length compressed)) of
             Inl e \<Rightarrow> [Error (''An error occurred: '' @ e)]
           | Inr gzip_size \<Rightarrow>
               [Metric ''Gzip Size'' gzip_size,
                Markdown ''**Processed Data Preview:**'',
                Dataframe (head df),
                Download_button ''Download Processed CSV'' processed_csv
                  ''processed.csv'' ''text/csv'',
                Download_button ''Download Compressed Gzip'' compressed
                  ''processed.csv.gz'' ''application/gzip'']))"

definition process :: "'n library \<Rightarrow> 'n frame \<Rightarrow> 'n ui list" where
  "process lib df0 =
     (let (df, removed_na, removed_dup) = clean df0;
          processed_csv = dataframe_to_csv_bytes lib df;
          compressed = gzip_compress lib processed_csv
      in [Markdown ''**Original Data Preview:**'', Dataframe (head df0)] @
         [if 0 < removed_na
          then Info (''Removed '' @ str_int removed_na @ '' incomplete rows.'')
          else Success ''No incomplete rows found.''] @
         [if 0 < removed_dup
          then Info (''Removed '' @ str_int removed_dup @ '' duplicate rows.'')
          else Success ''No duplicate rows found.''] @
         (case hot_cold lib df of
            (shown, Inl e) \<Rightarrow> shown @ [Error (''An error occurred: '' @ e)]
          | (shown, Inr (df1, hot_data, cold_data)) \<Rightarrow>
              shown @ report df1 processed_csv compressed))"

definition upload_handler :: "'n library \<Rightarrow> uploaded_file \<Rightarrow> 'n ui list \<times> bool" where
  "upload_handler lib uploaded =
     (case read_uploaded_file lib uploaded of
        (shown, Stopped) \<Rightarrow> (shown, True)
      | (shown, Raised e) \<Rightarrow> (shown @ [Error (''An error occurred: '' @ e)], False)
      | (shown, Returned df) \<Rightarrow> (shown @ process lib df, False))"

section \<open>The cleaning stage as the specification words it\<close>

text \<open>
  The reference the cleaning block is compared with. A row is incomplete when it holds
  an absent value in any column. Two rows are duplicates when all their column values
  are pairwise equal. The rows are visited in table order; a row that is a duplicate
  of a row retained before it is counted and removed, any other row is retained
  behind the rows retained so far.
\<close>

definition incomplete :: "'n cell list \<Rightarrow> bool" where
  "incomplete r = (NA \<in> set r)"

definition same_values :: "'n cell list \<Rightarrow> 'n cell list \<Rightarrow> bool" where
  "same_values r1 r2 = list_all2 (=) r1 r2"

fun retain_first ::
    "'n cell list list \<Rightarrow> 'n cell list list \<Rightarrow> 'n cell list list \<times> nat" where
  "retain_first retained [] = (retained, 0)"
| "retain_first retained (r # rs) =
     (if list_ex (\<lambda>k. same_values k r) retained
      then (let (kept, n) = retain_first retained rs in (kept, Suc n))
      else retain_first (retained @ [r]) rs)"

definition clean_spec :: "'n frame \<Rightarrow> 'n frame \<times> int \<times> int" where
  "clean_spec df =
     (let incomplete_removed = length (filter incomplete (rows df));
          remainder = filter (\<lambda>r. \<not> incomplete r) (rows df);
          (kept, duplicates_removed) = retain_first [] remainder
      in (df\<lparr>rows := kept\<rparr>, int incomplete_removed, int duplicates_removed))"

section \<open>Notions the statements use\<close>

text \<open>
  The position of the \<open>timestamp\<close> column, and a row after
  \<open>df["timestamp"] = pd.to_datetime(df["timestamp"], errors="coerce")\<close>.
\<close>

definition ts_index :: "'n frame \<Rightarrow> nat" where
  "ts_index df = index_of ''timestamp'' (columns df)"

definition convert_row :: "'n library \<Rightarrow> 'n frame \<Rightarrow> 'n cell list \<Rightarrow> 'n cell list" where
  "convert_row lib df r =
     r[ts_index df := convert_cell (parse_datetime lib) (cell_at r (ts_index df))]"

text \<open>
  A library for the concrete runs: no tabular reader, text decoded byte for byte, a PDF
  of one page, and a fixed clock. Its timestamp parser reads a number as nanoseconds
  since the epoch, without time zone, and the one string \<open>2023-11-01T00:00:00Z\<close> as that
  instant in UTC, time-zone-aware as pandas reads a trailing \<open>Z\<close>; it converts nothing
  else. Its \<open>pd.to_datetime\<close> raises for no column, and the \<open>TypeError\<close> of a comparison
  has the message of pandas.
\<close>

definition sample_library :: "int library" where
  "sample_library =
     \<lparr>read_csv = (\<lambda>b. Inl ''no CSV reader''),
      read_excel = (\<lambda>b. Inl ''no spreadsheet reader''),
      read_json = (\<lambda>b. Inl ''no JSON reader''),
      decode_utf8 = (\<lambda>b. Inr b),
      PdfReader = (\<lambda>b. Inr [Inr (Some b)]),
      Document = (\<lambda>b. Inr (splitlines b)),
      to_csv = (\<lambda>df. join '','' (columns df) @ [CHR 0x0A]),
      encode_utf8 = (\<lambda>s. s),
      gzip_compress = (\<lambda>b. b),
      parse_datetime =
        (\<lambda>c. case c of
               Num n \<Rightarrow> Some (n, None)
             | Str s \<Rightarrow> (if s = ''2023-11-01T00:00:00Z''
                        then Some (1698796800000000000, Some 0) else None)
             | _ \<Rightarrow> None),
      conversion_error = (\<lambda>series. None),
      comparison_error =
        (\<lambda>series. ''Cannot compare tz-naive and tz-aware datetime-like objects''),
      now = 1700000000000000000\<rparr>"

text \<open>Two rows, 45 days and 2 days before the clock of \<open>sample_library\<close>.\<close>

definition two_ages :: "int frame" where
  "two_ages = \<lparr>columns = [''id'', ''timestamp''],
     rows = [[Str ''old'', Num (1700000000000000000 - 45 * 86400000000000)],
             [Str ''new'', Num (1700000000000000000 - 2 * 86400000000000)]]\<rparr>"


text \<open>The \<open>timestamp\<close> column after the conversion, when the conversion does not raise.\<close>

definition ts_column :: "'n library \<Rightarrow> 'n frame \<Rightarrow> 'n cell list" where
  "ts_column lib df =
     map (\<lambda>r. convert_cell (parse_datetime lib) (cell_at r (ts_index df))) (rows df)"

text \<open>
  A column whose one value is an ISO string ending in \<open>Z\<close>, and the same column with a
  value that cannot be parsed next to it.
\<close>

definition all_aware :: "int frame" where
  "all_aware = \<lparr>columns = [''timestamp''], rows = [[Str ''2023-11-01T00:00:00Z'']]\<rparr>"


text \<open>
  The extensions \<open>read_uploaded_file\<close> has a branch for, and the elements of the page
  that offer a download.
\<close>

definition recognized :: "string list" where
  "recognized = [''csv'', ''xlsx'', ''json'', ''txt'', ''pdf'', ''docx'']"

definition is_download :: "'n ui \<Rightarrow> bool" where
  "is_download x =
     (case x of Download_button label data file_name mime \<Rightarrow> True | _ \<Rightarrow> False)"

text \<open>
  Whether \<open>extract_text()\<close> of a page returns, and what the page then adds to
  \<open>text_content\<close>: the text, or nothing when it returns \<open>None\<close>.
\<close>

definition page_returns :: "page \<Rightarrow> bool" where
  "page_returns p = (case p of Inr extracted \<Rightarrow> True | Inl e \<Rightarrow> False)"

definition page_text :: "page \<Rightarrow> string" where
  "page_text p = (case p of Inr (Some s) \<Rightarrow> s | _ \<Rightarrow> [])"

text \<open>
  Two PDF readers for the concrete runs: a document of four pages of which the second
  has no text and the third an empty one, and a document of three pages of which the
  second cannot be read.
\<close>

definition empty_page_library :: "int library" where
  "empty_page_library =
     sample_library\<lparr>PdfReader :=
       (\<lambda>b. Inr [Inr (Some ('' one '' @ [CHR 0x0A] @ ''two'')), Inr None, Inr (Some ''''),
                  Inr (Some (''2'' @ [CHR 0x0A, CHR 0x0A] @ ''three'' @ [CHR 0x0A]))])\<rparr>"

definition failing_page_library :: "int library" where
  "failing_page_library =
     sample_library\<lparr>PdfReader :=
       (\<lambda>b. Inr [Inr (Some ''first page''), Inl ''page 2 cannot be read'',
                  Inr (Some ''third page'')])\<rparr>"

text \<open>
  A frame without \<open>timestamp\<close> column, and a frame with an empty string in two rows and
  a missing value in another.
\<close>

definition ids_only :: "int frame" where
  "ids_only = \<lparr>columns = [''id''], rows = [[Str ''a''], [Str ''a''], [Str ''b'']]\<rparr>"

definition blank_and_missing :: "int frame" where
  "blank_and_missing = \<lparr>columns = [''name'', ''age''],
     rows = [[Str '''', Num 1], [NA, Num 2], [Str '''', Num 1]]\<rparr>"

section \<open>Cleaning: dropped rows and their counts\<close>

text \<open>
  A device of the proofs: the elements of a list that are neither in \<open>S\<close> nor equal to
  an earlier element, in order.
\<close>

fun firsts :: "'a set \<Rightarrow> 'a list \<Rightarrow> 'a list" where
  "firsts S [] = []"
| "firsts S (r # rs) = (if r \<in> S then firsts S rs else r # firsts (insert r S) rs)"

lemma select_map: "map fst (filter snd (zip xs (map P xs))) = filter P xs"
  by (induction xs) auto

lemma isna_iff: "isna c \<longleftrightarrow> c = NA"
  by (cases c) (auto simp: isna_def)

lemma list_ex_isna: "list_ex isna r \<longleftrightarrow> NA \<in> set r"
  by (auto simp: list_ex_iff isna_iff)

lemma rows_dropna: "rows (dropna df) = filter (\<lambda>r. NA \<notin> set r) (rows df)"
  by (simp add: dropna_def boolean_index_def select_map list_ex_isna)

lemma select_not_duplicated:
  "map fst (filter snd (zip rs (map Not (duplicated_from seen rs)))) = firsts (set seen) rs"
  by (induction rs arbitrary: seen) (auto simp: insert_absorb)

lemma columns_dropna: "columns (dropna df) = columns df"
  by (simp add: dropna_def boolean_index_def)

lemma rows_drop_duplicates:
  "rows (drop_duplicates df) = (if columns df = [] then rows df else firsts {} (rows df))"
  by (auto simp: drop_duplicates_def frame_empty_def boolean_index_def duplicated_def
      select_not_duplicated)

lemma drop_duplicates_eq:
  "drop_duplicates df =
     df\<lparr>rows := (if columns df = [] then rows df else firsts {} (rows df))\<rparr>"
  by (auto simp: drop_duplicates_def frame_empty_def boolean_index_def duplicated_def
      select_not_duplicated)

lemma same_values_eq: "same_values k r \<longleftrightarrow> k = r"
  by (simp add: same_values_def list.rel_eq)

lemma length_firsts_le: "length (firsts S rs) \<le> length rs"
  by (induction rs arbitrary: S) (auto simp: le_SucI)

lemma retain_first_firsts:
  "retain_first retained rs =
     (retained @ firsts (set retained) rs, length rs - length (firsts (set retained) rs))"
proof (induction rs arbitrary: retained)
  case Nil
  then show ?case by simp
next
  case (Cons r rs)
  show ?case
  proof (cases "r \<in> set retained")
    case True
    then show ?thesis
      using Cons.IH[of retained] length_firsts_le[of "set retained" rs]
      by (simp add: list_ex_iff same_values_eq Suc_diff_le)
  next
    case False
    then show ?thesis
      using Cons.IH[of "retained @ [r]"]
      by (simp add: list_ex_iff same_values_eq)
  qed
qed

lemma set_firsts: "set (firsts S rs) = set rs - S"
  by (induction rs arbitrary: S) auto

lemma distinct_firsts: "distinct (firsts S rs)"
  by (induction rs arbitrary: S) (auto simp: set_firsts)

lemma firsts_distinct: "distinct rs \<Longrightarrow> set rs \<inter> S = {} \<Longrightarrow> firsts S rs = rs"
  by (induction rs arbitrary: S) auto

lemma subseq_firsts: "subseq (firsts S rs) rs"
  by (induction rs arbitrary: S) auto

lemma dropna_eq: "dropna df = df\<lparr>rows := filter (\<lambda>r. NA \<notin> set r) (rows df)\<rparr>"
  by (simp add: dropna_def boolean_index_def select_map list_ex_isna)

lemma clean_eq:
  "columns df \<noteq> [] \<Longrightarrow> clean df =
     (df\<lparr>rows := firsts {} (filter (\<lambda>r. NA \<notin> set r) (rows df))\<rparr>,
      int (length (rows df)) - int (length (filter (\<lambda>r. NA \<notin> set r) (rows df))),
      int (length (filter (\<lambda>r. NA \<notin> set r) (rows df)))
        - int (length (firsts {} (filter (\<lambda>r. NA \<notin> set r) (rows df)))))"
  by (simp add: clean_def Let_def len_def dropna_eq drop_duplicates_eq)

lemma clean_no_columns:
  "columns df = [] \<Longrightarrow> clean df =
     (df\<lparr>rows := filter (\<lambda>r. NA \<notin> set r) (rows df)\<rparr>,
      int (length (rows df)) - int (length (filter (\<lambda>r. NA \<notin> set r) (rows df))),
      0)"
  by (simp add: clean_def Let_def len_def dropna_eq drop_duplicates_eq)

lemma length_filter_compl:
  "length (filter P xs) + length (filter (\<lambda>x. \<not> P x) xs) = length xs"
  by (induction xs) auto

lemma clean_spec_eq:
  "clean_spec df =
     (df\<lparr>rows := firsts {} (filter (\<lambda>r. NA \<notin> set r) (rows df))\<rparr>,
      int (length (rows df)) - int (length (filter (\<lambda>r. NA \<notin> set r) (rows df))),
      int (length (filter (\<lambda>r. NA \<notin> set r) (rows df)))
        - int (length (firsts {} (filter (\<lambda>r. NA \<notin> set r) (rows df)))))"
proof -
  have inc: "incomplete = (\<lambda>r::'a cell list. NA \<in> set r)"
    by (rule ext) (simp add: incomplete_def)
  show ?thesis
    using length_filter_compl[of "\<lambda>r. NA \<in> set r" "rows df"]
      length_firsts_le[of "{}" "filter (\<lambda>r. NA \<notin> set r) (rows df)"]
    by (simp add: clean_spec_def Let_def inc retain_first_firsts of_nat_diff)
qed

text \<open>
  C1, as the code has it. For every frame that has a column the cleaning block of the
  handler computes what the reference computes: the rows with an absent value are
  removed and counted first, then the exact duplicates among the remaining rows, each
  first occurrence staying. The rows that stay are pairwise different, are exactly the
  complete rows of the input, and keep their order; every input row is counted once,
  as incomplete, as duplicate or as retained. On the rows
  \<open>{a:1,b:2}, {a:1,b:2}, {a:3,b:null}\<close> the result is the one row \<open>{a:1,b:2}\<close> with the
  counts 1 and 1.
\<close>

theorem clean_refines_reference:
  assumes "columns df \<noteq> []"
  shows "clean df = clean_spec df \<and>
   (case clean df of (cleaned, removed_na, removed_dup) \<Rightarrow>
      subseq (rows cleaned) (rows df) \<and>
      distinct (rows cleaned) \<and>
      set (rows cleaned) = {r \<in> set (rows df). NA \<notin> set r} \<and>
      columns cleaned = columns df \<and>
      removed_na + removed_dup + len cleaned = len df) \<and>
   clean \<lparr>columns = [''a'', ''b''],
          rows = [[Num (1::int), Num 2], [Num 1, Num 2], [Num 3, NA]]\<rparr>
     = (\<lparr>columns = [''a'', ''b''], rows = [[Num 1, Num 2]]\<rparr>, 1, 1)"
proof (intro conjI)
  show "clean df = clean_spec df"
    by (simp only: clean_eq[OF assms] clean_spec_eq)
  show "case clean df of (cleaned, removed_na, removed_dup) \<Rightarrow>
      subseq (rows cleaned) (rows df) \<and>
      distinct (rows cleaned) \<and>
      set (rows cleaned) = {r \<in> set (rows df). NA \<notin> set r} \<and>
      columns cleaned = columns df \<and>
      removed_na + removed_dup + len cleaned = len df"
  proof -
    let ?c = "filter (\<lambda>r. NA \<notin> set r) (rows df)"
    have "subseq (firsts {} ?c) ?c" by (rule subseq_firsts)
    then have s: "subseq (firsts {} ?c) (rows df)"
      by (rule subseq_order.order_trans) (rule subseq_filter_left)
    have d: "distinct (firsts {} ?c)" by (rule distinct_firsts)
    have e: "set (firsts {} ?c) = {r \<in> set (rows df). NA \<notin> set r}"
      by (simp add: set_firsts)
    show ?thesis using s d e by (simp add: clean_eq[OF assms] len_def)
  qed
  show "clean \<lparr>columns = [''a'', ''b''],
          rows = [[Num (1::int), Num 2], [Num 1, Num 2], [Num 3, NA]]\<rparr>
     = (\<lparr>columns = [''a'', ''b''], rows = [[Num 1, Num 2]]\<rparr>, 1, 1)"
    by (simp add: clean_eq)
qed

text \<open>
  The frame of the scenario has two columns, so the reference gives the one row and the
  counts 1 and 1 on it as the handler does.
\<close>

theorem clean_refines_reference_witness:
  "clean_spec \<lparr>columns = [''a'', ''b''],
          rows = [[Num (1::int), Num 2], [Num 1, Num 2], [Num 3, NA]]\<rparr>
     = (\<lparr>columns = [''a'', ''b''], rows = [[Num 1, Num 2]]\<rparr>, 1, 1)"
proof -
  let ?df = "\<lparr>columns = [''a'', ''b''],
          rows = [[Num (1::int), Num 2], [Num 1, Num 2], [Num 3, NA]]\<rparr>"
  have "columns ?df \<noteq> []" by simp
  from clean_refines_reference[OF this]
  have "clean ?df = clean_spec ?df"
    and "clean ?df = (\<lparr>columns = [''a'', ''b''], rows = [[Num 1, Num 2]]\<rparr>, 1, 1)"
    by blast+
  then show ?thesis by simp
qed

text \<open>
  A frame without columns is outside: \<open>drop_duplicates\<close> returns it as it is. Of two
  rows without any value, equal in every column, the handler keeps both and counts no
  duplicate, where the reference keeps the first and counts one.
\<close>

theorem clean_keeps_rows_without_columns:
  "clean (\<lparr>columns = [], rows = [[], []]\<rparr> :: int frame)
     = (\<lparr>columns = [], rows = [[], []]\<rparr>, 0, 0) \<and>
   clean_spec (\<lparr>columns = [], rows = [[], []]\<rparr> :: int frame)
     = (\<lparr>columns = [], rows = [[]]\<rparr>, 0, 1)"
  by (simp add: clean_no_columns clean_spec_eq)

text \<open>
  C9. Cleaning is idempotent: cleaning the cleaned frame again removes no incomplete
  row and no duplicate row, and returns the same frame.
\<close>

theorem clean_idempotent:
  "clean (fst (clean df)) = (fst (clean df), 0, 0)"
proof (cases "columns df = []")
  case True
  then show ?thesis by (simp add: clean_no_columns)
next
  case False
  then show ?thesis
    by (simp add: clean_eq firsts_distinct distinct_firsts filter_id_conv set_firsts)
qed

section \<open>Empty strings and missing values\<close>

lemma no_NA_text_frame: "r \<in> set (rows (text_frame t)) \<Longrightarrow> NA \<notin> set r"
  by (auto simp: text_frame_def)

lemma dropna_text_frame: "dropna (text_frame t) = text_frame t"
proof -
  have "filter (\<lambda>r. NA \<notin> set r) (rows (text_frame t :: 'a frame)) = rows (text_frame t)"
    by (simp add: text_frame_def filter_id_conv)
  then show ?thesis by (simp add: dropna_eq)
qed

lemma set_rows_clean: "set (rows (fst (clean df))) = {r \<in> set (rows df). NA \<notin> set r}"
  by (cases "columns df = []") (auto simp: clean_eq clean_no_columns set_firsts)

lemma removed_na_count:
  "fst (snd (clean df)) = int (length (filter (\<lambda>r. NA \<in> set r) (rows df)))"
proof -
  have "fst (snd (clean df))
      = int (length (rows df)) - int (length (filter (\<lambda>r. NA \<notin> set r) (rows df)))"
    by (cases "columns df = []") (simp_all add: clean_eq clean_no_columns)
  then show ?thesis
    using length_filter_compl[of "\<lambda>r. NA \<in> set r" "rows df"] by simp
qed

text \<open>
  C10, as the code has it. A \<open>str\<close>, empty or not, is not a missing value. \<open>dropna\<close>
  keeps exactly the rows without missing value, every occurrence of them, so
  \<open>removed_na\<close> counts the rows with a missing value and no other; a frame built from
  text lines loses no row to it. A row without missing value is still a row of the
  cleaned frame, where \<open>drop_duplicates\<close> keeps its first occurrence.
\<close>

theorem empty_string_is_not_missing:
  "\<not> isna (Str s) \<and>
   rows (dropna df) = filter (\<lambda>r. NA \<notin> set r) (rows df) \<and>
   (\<forall>r \<in> set (rows df). NA \<notin> set r \<longrightarrow>
      r \<in> set (rows (dropna df)) \<and> r \<in> set (rows (fst (clean df)))) \<and>
   fst (snd (clean df)) = int (length (filter (\<lambda>r. NA \<in> set r) (rows df))) \<and>
   dropna (text_frame t) = (text_frame t :: 'n frame) \<and>
   fst (snd (clean (text_frame t :: 'n frame))) = 0"
proof -
  have a: "\<not> isna (Str s)" by (simp add: isna_def)
  have b: "rows (dropna df) = filter (\<lambda>r. NA \<notin> set r) (rows df)" by (rule rows_dropna)
  have c: "\<forall>r \<in> set (rows df). NA \<notin> set r \<longrightarrow>
      r \<in> set (rows (dropna df)) \<and> r \<in> set (rows (fst (clean df)))"
    by (simp add: rows_dropna set_rows_clean)
  have d: "fst (snd (clean df)) = int (length (filter (\<lambda>r. NA \<in> set r) (rows df)))"
    by (rule removed_na_count)
  have e: "dropna (text_frame t) = (text_frame t :: 'n frame)" by (rule dropna_text_frame)
  have "filter (\<lambda>r. NA \<in> set r) (rows (text_frame t :: 'n frame)) = []"
    by (simp add: text_frame_def filter_empty_conv)
  then have f: "fst (snd (clean (text_frame t :: 'n frame))) = 0"
    by (simp add: removed_na_count)
  from a b c d e f show ?thesis by blast
qed

text \<open>
  In \<open>blank_and_missing\<close> the row with the empty string stays and one row, the one with
  the missing value, is counted as incomplete.
\<close>

theorem empty_string_is_not_missing_witness:
  "[Str '''', Num 1] \<in> set (rows (dropna blank_and_missing)) \<and>
   [Str '''', Num 1] \<in> set (rows (fst (clean blank_and_missing))) \<and>
   fst (snd (clean blank_and_missing)) = 1"
proof -
  have r: "[Str '''', Num 1] \<in> set (rows blank_and_missing)"
    by (simp add: blank_and_missing_def)
  have n: "NA \<notin> set [Str '''', Num (1::int)]" by simp
  have k: "int (length (filter (\<lambda>r. NA \<in> set r) (rows blank_and_missing))) = 1"
    by (simp add: blank_and_missing_def)
  from empty_string_is_not_missing[of _ blank_and_missing] r n k show ?thesis
    by metis
qed

text \<open>
  Not every row with an empty string is retained by the cleaning block. The text
  \<open>x\<close> followed by three line feeds has the lines \<open>x\<close>, empty, empty; the second blank
  line holds no missing value and is removed, as a duplicate of the first.
\<close>

theorem repeated_blank_line_is_dropped:
  "rows (text_frame [CHR ''x'', CHR 0x0A, CHR 0x0A, CHR 0x0A] :: int frame)
     = [[Str ''x''], [Str ''''], [Str '''']] \<and>
   clean (text_frame [CHR ''x'', CHR 0x0A, CHR 0x0A, CHR 0x0A] :: int frame)
     = (\<lparr>columns = [''text_content''], rows = [[Str ''x''], [Str '''']]\<rparr>, 0, 1)"
  by code_simp

section \<open>The partition block\<close>

text \<open>
  The block on a frame that has the \<open>timestamp\<close> column: the exception of
  \<open>pd.to_datetime\<close> if it raises, the \<open>TypeError\<close> of the first comparison if a converted
  value is time-zone-aware, and otherwise the converted frame with the rows the two
  comparisons select.
\<close>

lemma map_zip_map: "map (\<lambda>(r, c). g r c) (zip xs (map f xs)) = map (\<lambda>r. g r (f r)) xs"
  by (induction xs) auto

lemma convert_cell_NA [simp]: "convert_cell p NA = NA"
  by (simp add: convert_cell_def)

lemma cell_at_update:
  "cell_at (r[i := convert_cell p (cell_at r i)]) i = convert_cell p (cell_at r i)"
  by (simp add: cell_at_def)

lemma converted_cell:
  "cell_at (convert_row lib df r) (ts_index df) =
     convert_cell (parse_datetime lib) (cell_at r (ts_index df))"
  by (simp add: convert_row_def cell_at_update)

lemma get_column_ts:
  "get_column df ''timestamp'' = map (\<lambda>r. cell_at r (ts_index df)) (rows df)"
  by (simp add: get_column_def ts_index_def)

lemma set_converted:
  assumes "''timestamp'' \<in> set (columns df)"
  shows "set_column df ''timestamp''
           (map (convert_cell (parse_datetime lib)) (get_column df ''timestamp''))
         = df\<lparr>rows := map (convert_row lib df) (rows df)\<rparr>"
  using assms
  by (simp add: set_column_def get_column_def map_zip_map convert_row_def[abs_def]
      ts_index_def o_def)

lemma get_converted:
  "get_column (df\<lparr>rows := map (convert_row lib df) (rows df)\<rparr>) ''timestamp''
     = ts_column lib df"
  by (simp add: get_column_def ts_column_def o_def converted_cell[unfolded ts_index_def]
      ts_index_def)

lemma hot_cold_raises_conversion:
  assumes "''timestamp'' \<in> set (columns df)"
    and "conversion_error lib (get_column df ''timestamp'') = Some e"
  shows "hot_cold lib df = ([], Inl e)"
  using assms by (simp add: hot_cold_def to_datetime_def)

lemma hot_cold_raises_comparison:
  assumes "''timestamp'' \<in> set (columns df)"
    and "conversion_error lib (get_column df ''timestamp'') = None"
    and "list_ex aware (ts_column lib df)"
  shows "hot_cold lib df = ([], Inl (comparison_error lib (ts_column lib df)))"
  using assms
  by (simp add: hot_cold_def to_datetime_def set_converted get_converted series_ge_def Let_def)

lemma hot_cold_returns:
  assumes "''timestamp'' \<in> set (columns df)"
    and "conversion_error lib (get_column df ''timestamp'') = None"
    and "\<not> list_ex aware (ts_column lib df)"
  shows "hot_cold lib df =
    ([], Inr (df\<lparr>rows := map (convert_row lib df) (rows df)\<rparr>,
     df\<lparr>rows := filter (\<lambda>r. ge_cutoff (now lib - timedelta_days 30) (cell_at r (ts_index df)))
        (map (convert_row lib df) (rows df))\<rparr>,
     df\<lparr>rows := filter (\<lambda>r. lt_cutoff (now lib - timedelta_days 30) (cell_at r (ts_index df)))
        (map (convert_row lib df) (rows df))\<rparr>))"
proof -
  have sel: "map fst (filter snd (zip (map g xs) (map (P \<circ> (f \<circ> g)) xs)))
      = filter (\<lambda>x. P (f x)) (map g xs)"
    for xs :: "'a cell list list" and P and f :: "'a cell list \<Rightarrow> 'a cell" and g
    by (induction xs) auto
  have col: "ts_column lib df
      = map (\<lambda>r. cell_at r (ts_index df)) (map (convert_row lib df) (rows df))"
    by (simp add: ts_column_def o_def converted_cell)
  show ?thesis
    using assms
    by (simp add: hot_cold_def to_datetime_def set_converted get_converted series_ge_def
        series_lt_def Let_def boolean_index_def)
       (simp add: col sel)
qed


lemma length_filter3:
  "length (filter (\<lambda>x. ge_cutoff k (f x)) xs) + length (filter (\<lambda>x. lt_cutoff k (f x)) xs)
     + length (filter (\<lambda>x. f x = NA) xs) = length xs"
  if "\<And>x. x \<in> set xs \<Longrightarrow> f x = NA \<or> (\<exists>t z. f x = Datetime t z)"
  using that
proof (induction xs)
  case Nil
  then show ?case by simp
next
  case (Cons a xs)
  then have IH: "length (filter (\<lambda>x. ge_cutoff k (f x)) xs)
     + length (filter (\<lambda>x. lt_cutoff k (f x)) xs)
     + length (filter (\<lambda>x. f x = NA) xs) = length xs" by simp
  from Cons.prems[of a] have "f a = NA \<or> (\<exists>t z. f a = Datetime t z)" by simp
  then show ?case using IH
    by (auto simp: ge_cutoff_def lt_cutoff_def)
qed

lemma not_ge_and_lt: "\<not> (ge_cutoff k c \<and> lt_cutoff k c)"
  by (cases c) (auto simp: ge_cutoff_def lt_cutoff_def)


lemma not_aware_naive: "\<not> aware (Datetime t None)"
  by (simp add: aware_def)

text \<open>The runs of the block with \<open>sample_library\<close>.\<close>

lemma sample_eval:
  "conversion_error sample_library s = None"
  "now sample_library = 1700000000000000000"
  "comparison_error sample_library s = ''Cannot compare tz-naive and tz-aware datetime-like objects''"
  "parse_datetime sample_library (Num n) = Some (n, None)"
  "parse_datetime sample_library (Str ''2023-11-01T00:00:00Z'') = Some (1698796800000000000, Some 0)"
  "parse_datetime sample_library (Str ''not a date'') = None"
  by (simp_all add: sample_library_def)

lemmas run_defs = hot_cold_def to_datetime_def series_ge_def series_lt_def Let_def
  set_column_def get_column_def cell_at_def convert_cell_def boolean_index_def ge_cutoff_def
  lt_cutoff_def timedelta_days_def aware_def sample_eval

lemma two_ages_run:
  "hot_cold sample_library two_ages =
     ([], Inr
      (\<lparr>columns = [''id'', ''timestamp''],
        rows = [[Str ''old'', Datetime 1696112000000000000 None],
                [Str ''new'', Datetime 1699827200000000000 None]]\<rparr>,
      \<lparr>columns = [''id'', ''timestamp''],
        rows = [[Str ''new'', Datetime 1699827200000000000 None]]\<rparr>,
      \<lparr>columns = [''id'', ''timestamp''],
        rows = [[Str ''old'', Datetime 1696112000000000000 None]]\<rparr>))"
  by (simp add: two_ages_def run_defs)


text \<open>
  C2, as the code has it. The claim holds where \<open>pd.to_datetime\<close> does not raise and
  every value of the \<open>timestamp\<close> column converts to a timestamp without time zone.
  Then the block raises nothing; with the cutoff \<open>datetime.now() - timedelta(days=30)\<close>,
  computed once from one reading of the clock, every row whose timestamp is at or after
  the cutoff is in \<open>hot_data\<close> and not in \<open>cold_data\<close>, every row whose timestamp is
  before the cutoff is in \<open>cold_data\<close> and not in \<open>hot_data\<close>; the two share no row,
  together they hold the rows of the frame, and their sizes sum to its size.
\<close>

theorem hot_cold_partition:
  assumes present: "''timestamp'' \<in> set (columns df)"
    and converts: "conversion_error lib (get_column df ''timestamp'') = None"
    and naive: "\<forall>r \<in> set (rows df).
        \<exists>t. convert_cell (parse_datetime lib) (cell_at r (ts_index df)) = Datetime t None"
    and cutoff: "cutoff = now lib - timedelta_days 30"
  shows "\<exists>df1 hot_data cold_data.
    hot_cold lib df = ([], Inr (df1, hot_data, cold_data)) \<and>
    rows df1 = map (convert_row lib df) (rows df) \<and>
    (\<forall>r \<in> set (rows df1). \<exists>t. cell_at r (ts_index df) = Datetime t None \<and>
        (cutoff \<le> t \<longrightarrow> r \<in> set (rows hot_data) \<and> r \<notin> set (rows cold_data)) \<and>
        (t < cutoff \<longrightarrow> r \<in> set (rows cold_data) \<and> r \<notin> set (rows hot_data))) \<and>
    set (rows hot_data) \<inter> set (rows cold_data) = {} \<and>
    set (rows hot_data) \<union> set (rows cold_data) = set (rows df1) \<and>
    len hot_data + len cold_data = len df"
proof -
  let ?i = "ts_index df"
  let ?rs = "map (convert_row lib df) (rows df)"
  let ?hot = "filter (\<lambda>r. ge_cutoff cutoff (cell_at r ?i)) ?rs"
  let ?cold = "filter (\<lambda>r. lt_cutoff cutoff (cell_at r ?i)) ?rs"
  have dt: "\<exists>t. cell_at r ?i = Datetime t None" if "r \<in> set ?rs" for r
  proof -
    from that obtain r0 where r0: "r0 \<in> set (rows df)" and r: "r = convert_row lib df r0"
      by auto
    from naive r0 show ?thesis by (simp add: r converted_cell)
  qed
  have "\<not> aware c" if "c \<in> set (ts_column lib df)" for c
  proof -
    from that obtain r0 where "r0 \<in> set (rows df)"
      and "c = convert_cell (parse_datetime lib) (cell_at r0 ?i)"
      by (auto simp: ts_column_def)
    with naive show ?thesis by (auto simp: not_aware_naive)
  qed
  then have noaware: "\<not> list_ex aware (ts_column lib df)" by (auto simp: list_ex_iff)
  have run: "hot_cold lib df = ([], Inr (df\<lparr>rows := ?rs\<rparr>, df\<lparr>rows := ?hot\<rparr>, df\<lparr>rows := ?cold\<rparr>))"
    unfolding cutoff by (rule hot_cold_returns[OF present converts noaware])
  have each: "\<forall>r \<in> set ?rs. \<exists>t. cell_at r ?i = Datetime t None \<and>
        (cutoff \<le> t \<longrightarrow> r \<in> set ?hot \<and> r \<notin> set ?cold) \<and>
        (t < cutoff \<longrightarrow> r \<in> set ?cold \<and> r \<notin> set ?hot)"
  proof
    fix r assume r: "r \<in> set ?rs"
    from dt[OF r] obtain t where t: "cell_at r ?i = Datetime t None" by blast
    show "\<exists>t. cell_at r ?i = Datetime t None \<and>
        (cutoff \<le> t \<longrightarrow> r \<in> set ?hot \<and> r \<notin> set ?cold) \<and>
        (t < cutoff \<longrightarrow> r \<in> set ?cold \<and> r \<notin> set ?hot)"
      using r t by (intro exI[of _ t]) (auto simp: ge_cutoff_def lt_cutoff_def)
  qed
  have disj: "set ?hot \<inter> set ?cold = {}"
    using not_ge_and_lt[of cutoff] by auto
  have cover: "set ?hot \<union> set ?cold = set ?rs"
  proof
    show "set ?hot \<union> set ?cold \<subseteq> set ?rs" by auto
    show "set ?rs \<subseteq> set ?hot \<union> set ?cold"
    proof
      fix r assume r: "r \<in> set ?rs"
      with each obtain t where "cell_at r ?i = Datetime t None"
        "cutoff \<le> t \<longrightarrow> r \<in> set ?hot" "t < cutoff \<longrightarrow> r \<in> set ?cold"
        by blast
      then show "r \<in> set ?hot \<union> set ?cold"
        by (cases "cutoff \<le> t") auto
    qed
  qed
  have none: "filter (\<lambda>r. cell_at r ?i = NA) ?rs = []"
  proof -
    have "cell_at r ?i \<noteq> NA" if "r \<in> set ?rs" for r
      using dt[OF that] by auto
    then show ?thesis unfolding filter_empty_conv by blast
  qed
  have "length ?hot + length ?cold + length (filter (\<lambda>r. cell_at r ?i = NA) ?rs) = length ?rs"
    by (rule length_filter3) (use dt in blast)
  then have count: "len (df\<lparr>rows := ?hot\<rparr>) + len (df\<lparr>rows := ?cold\<rparr>) = len df"
    unfolding len_def none by simp
  show ?thesis
    apply (rule exI[of _ "df\<lparr>rows := ?rs\<rparr>"])
    apply (rule exI[of _ "df\<lparr>rows := ?hot\<rparr>"])
    apply (rule exI[of _ "df\<lparr>rows := ?cold\<rparr>"])
    using run each disj cover count by simp
qed


text \<open>
  The scenario of the claim: of a value 45 days old and a value 2 days old, \<open>hot_data\<close>
  is the row 2 days old and \<open>cold_data\<close> the row 45 days old.
\<close>

theorem hot_cold_partition_witness:
  "(\<exists>df1 hot_data cold_data.
      hot_cold sample_library two_ages = ([], Inr (df1, hot_data, cold_data)) \<and>
      rows hot_data = [[Str ''new'', Datetime 1699827200000000000 None]] \<and>
      rows cold_data = [[Str ''old'', Datetime 1696112000000000000 None]] \<and>
      set (rows hot_data) \<inter> set (rows cold_data) = {} \<and>
      len hot_data + len cold_data = len two_ages)"
proof -
  have present: "''timestamp'' \<in> set (columns two_ages)"
    by (simp add: two_ages_def)
  have converts: "conversion_error sample_library (get_column two_ages ''timestamp'') = None"
    by (rule sample_eval)
  have naive: "\<forall>r \<in> set (rows two_ages).
      \<exists>t. convert_cell (parse_datetime sample_library) (cell_at r (ts_index two_ages))
        = Datetime t None"
    by (simp add: two_ages_def ts_index_def cell_at_def convert_cell_def sample_eval)
  from hot_cold_partition[OF present converts naive refl]
  obtain df1 hot_data cold_data where
    "hot_cold sample_library two_ages = ([], Inr (df1, hot_data, cold_data))"
    "set (rows hot_data) \<inter> set (rows cold_data) = {}"
    "len hot_data + len cold_data = len two_ages"
    by blast
  then show ?thesis unfolding two_ages_run by auto
qed

text \<open>
  That every value parses as a timestamp is not enough. The one value of \<open>all_aware\<close>
  parses, to a time-zone-aware timestamp, and the comparison of the column with the
  cutoff raises: the handler shows the \<open>TypeError\<close> and builds no partition.
\<close>

theorem aware_timestamps_raise:
  "''timestamp'' \<in> set (columns all_aware) \<and>
   rows all_aware = [[Str ''2023-11-01T00:00:00Z'']] \<and>
   convert_cell (parse_datetime sample_library)
       (cell_at [Str ''2023-11-01T00:00:00Z''] (ts_index all_aware))
     = Datetime 1698796800000000000 (Some 0) \<and>
   hot_cold sample_library all_aware
     = ([], Inl ''Cannot compare tz-naive and tz-aware datetime-like objects'') \<and>
   process sample_library all_aware
     = [Markdown ''**Original Data Preview:**'',
        Dataframe all_aware,
        Success ''No incomplete rows found.'',
        Success ''No duplicate rows found.'',
        Error (''An error occurred: '' @
          ''Cannot compare tz-naive and tz-aware datetime-like objects'')]"
proof -
  have c: "clean all_aware = (all_aware, 0, 0)"
    by (simp add: all_aware_def clean_eq)
  have h: "hot_cold sample_library all_aware
     = ([], Inl ''Cannot compare tz-naive and tz-aware datetime-like objects'')"
    by (simp add: all_aware_def ts_index_def run_defs)
  have p: "process sample_library all_aware
     = [Markdown ''**Original Data Preview:**'',
        Dataframe all_aware,
        Success ''No incomplete rows found.'',
        Success ''No duplicate rows found.'',
        Error (''An error occurred: '' @
          ''Cannot compare tz-naive and tz-aware datetime-like objects'')]"
    unfolding process_def c Let_def prod.case h
    by (simp add: head_def all_aware_def)
  show ?thesis
    unfolding p h by (simp add: all_aware_def ts_index_def cell_at_def convert_cell_def
        sample_eval)
qed





section \<open>A frame without \<open>timestamp\<close> column\<close>

lemma columns_clean: "columns (fst (clean df)) = columns df"
  by (simp add: clean_def Let_def dropna_eq drop_duplicates_eq)

lemma report_sizes:
  assumes "bytesize_fmt (int (length processed_csv)) = Inr csv_size"
    and "bytesize_fmt (int (length compressed)) = Inr gzip_size"
  shows "report df processed_csv compressed =
     [Metric ''Rows'' (str_int (len df)),
      Metric ''CSV Size'' csv_size,
      Metric ''Gzip Size'' gzip_size,
      Markdown ''**Processed Data Preview:**'',
      Dataframe (head df),
      Download_button ''Download Processed CSV'' processed_csv ''processed.csv'' ''text/csv'',
      Download_button ''Download Compressed Gzip'' compressed
        ''processed.csv.gz'' ''application/gzip'']"
  using assms by (simp add: report_def)

text \<open>
  C4. When the uploaded frame has no \<open>timestamp\<close> column, the cleaned frame has none
  either, and the partition block raises nothing: it shows the warning that the
  distribution is skipped, and \<open>hot_data\<close> and \<open>cold_data\<close> are both the frame without
  rows, so no row is put on either side. The handler goes on with the whole cleaned
  frame: after the warning come the row count of the cleaned frame, the sizes of its
  CSV bytes and of their compression, its preview and the two downloads of these
  bytes (when \<open>bytesize_fmt\<close> returns for the two sizes).
\<close>

theorem missing_timestamp_column_skips:
  assumes absent: "''timestamp'' \<notin> set (columns df0)"
    and cleaned: "clean df0 = (df, removed_na, removed_dup)"
    and csv: "processed_csv = dataframe_to_csv_bytes lib df"
    and gz: "compressed = gzip_compress lib processed_csv"
  shows "hot_cold lib df =
      ([Warning ''No 'timestamp' column found. Skipping hot/cold data distribution.''],
       Inr (df, empty_frame, empty_frame)) \<and>
    rows (empty_frame :: 'n frame) = [] \<and>
    process lib df0 =
      [Markdown ''**Original Data Preview:**'',
       Dataframe (head df0),
       if 0 < removed_na
       then Info (''Removed '' @ str_int removed_na @ '' incomplete rows.'')
       else Success ''No incomplete rows found.'',
       if 0 < removed_dup
       then Info (''Removed '' @ str_int removed_dup @ '' duplicate rows.'')
       else Success ''No duplicate rows found.'',
       Warning ''No 'timestamp' column found. Skipping hot/cold data distribution.'']
      @ report df processed_csv compressed \<and>
    (\<forall>csv_size gzip_size.
       bytesize_fmt (int (length processed_csv)) = Inr csv_size \<and>
       bytesize_fmt (int (length compressed)) = Inr gzip_size \<longrightarrow>
       report df processed_csv compressed =
         [Metric ''Rows'' (str_int (len df)),
          Metric ''CSV Size'' csv_size,
          Metric ''Gzip Size'' gzip_size,
          Markdown ''**Processed Data Preview:**'',
          Dataframe (head df),
          Download_button ''Download Processed CSV'' processed_csv
            ''processed.csv'' ''text/csv'',
          Download_button ''Download Compressed Gzip'' compressed
            ''processed.csv.gz'' ''application/gzip''])"
proof -
  have "columns df = columns df0"
    using columns_clean[of df0] cleaned by simp
  with absent have skip: "hot_cold lib df =
      ([Warning ''No 'timestamp' column found. Skipping hot/cold data distribution.''],
       Inr (df, empty_frame, empty_frame))"
    by (simp add: hot_cold_def)
  have e: "rows (empty_frame :: 'n frame) = []"
    by (simp add: empty_frame_def)
  have p: "process lib df0 =
      [Markdown ''**Original Data Preview:**'',
       Dataframe (head df0),
       if 0 < removed_na
       then Info (''Removed '' @ str_int removed_na @ '' incomplete rows.'')
       else Success ''No incomplete rows found.'',
       if 0 < removed_dup
       then Info (''Removed '' @ str_int removed_dup @ '' duplicate rows.'')
       else Success ''No duplicate rows found.'',
       Warning ''No 'timestamp' column found. Skipping hot/cold data distribution.'']
      @ report df processed_csv compressed"
    unfolding process_def cleaned csv gz Let_def prod.case skip by simp
  from skip e p report_sizes[of processed_csv _ compressed _ df] show ?thesis
    by blast
qed

lemma size_3: "bytesize_fmt 3 = Inr ''3.00 B''"
  by code_simp

lemma clean_ids_only:
  "clean ids_only = (\<lparr>columns = [''id''], rows = [[Str ''a''], [Str ''b'']]\<rparr>, 0, 1)"
  by (simp add: ids_only_def clean_eq)

text \<open>
  The page for \<open>ids_only\<close>, from the first preview to the downloads.
\<close>

theorem missing_timestamp_column_skips_witness:
  "process sample_library ids_only =
     [Markdown ''**Original Data Preview:**'',
      Dataframe ids_only,
      Success ''No incomplete rows found.'',
      Info ''Removed 1 duplicate rows.'',
      Warning ''No 'timestamp' column found. Skipping hot/cold data distribution.'',
      Metric ''Rows'' ''2'',
      Metric ''CSV Size'' ''3.00 B'',
      Metric ''Gzip Size'' ''3.00 B'',
      Markdown ''**Processed Data Preview:**'',
      Dataframe \<lparr>columns = [''id''], rows = [[Str ''a''], [Str ''b'']]\<rparr>,
      Download_button ''Download Processed CSV'' ''id\<newline>'' ''processed.csv'' ''text/csv'',
      Download_button ''Download Compressed Gzip'' ''id\<newline>''
        ''processed.csv.gz'' ''application/gzip'']"
proof -
  let ?df = "\<lparr>columns = [''id''], rows = [[Str ''a''], [Str ''b'']]\<rparr> :: int frame"
  have absent: "''timestamp'' \<notin> set (columns ids_only)"
    by (simp add: ids_only_def)
  have csv: "''id\<newline>'' = dataframe_to_csv_bytes sample_library ?df"
    by (simp add: dataframe_to_csv_bytes_def sample_library_def)
  have gz: "''id\<newline>'' = gzip_compress sample_library ''id\<newline>''"
    by (simp add: sample_library_def)
  have s: "bytesize_fmt (int (length ''id\<newline>'')) = Inr ''3.00 B''"
    using size_3 by simp
  from missing_timestamp_column_skips[OF absent clean_ids_only csv gz]
  have p: "process sample_library ids_only =
      [Markdown ''**Original Data Preview:**'',
       Dataframe (head ids_only),
       if 0 < (0::int)
       then Info (''Removed '' @ str_int 0 @ '' incomplete rows.'')
       else Success ''No incomplete rows found.'',
       if 0 < (1::int)
       then Info (''Removed '' @ str_int 1 @ '' duplicate rows.'')
       else Success ''No duplicate rows found.'',
       Warning ''No 'timestamp' column found. Skipping hot/cold data distribution.'']
      @ report ?df ''id\<newline>'' ''id\<newline>''"
    and r: "\<forall>csv_size gzip_size.
       bytesize_fmt (int (length ''id\<newline>'')) = Inr csv_size \<and>
       bytesize_fmt (int (length ''id\<newline>'')) = Inr gzip_size \<longrightarrow>
       report ?df ''id\<newline>'' ''id\<newline>'' =
         [Metric ''Rows'' (str_int (len ?df)),
          Metric ''CSV Size'' csv_size,
          Metric ''Gzip Size'' gzip_size,
          Markdown ''**Processed Data Preview:**'',
          Dataframe (head ?df),
          Download_button ''Download Processed CSV'' ''id\<newline>''
            ''processed.csv'' ''text/csv'',
          Download_button ''Download Compressed Gzip'' ''id\<newline>''
            ''processed.csv.gz'' ''application/gzip'']"
    by blast+
  from r s have r': "report ?df ''id\<newline>'' ''id\<newline>'' =
         [Metric ''Rows'' (str_int (len ?df)),
          Metric ''CSV Size'' ''3.00 B'',
          Metric ''Gzip Size'' ''3.00 B'',
          Markdown ''**Processed Data Preview:**'',
          Dataframe (head ?df),
          Download_button ''Download Processed CSV'' ''id\<newline>''
            ''processed.csv'' ''text/csv'',
          Download_button ''Download Compressed Gzip'' ''id\<newline>''
            ''processed.csv.gz'' ''application/gzip'']"
    by blast
  have h: "head ids_only = ids_only" "head ?df = ?df"
    by (simp_all add: head_def ids_only_def)
  have n: "str_int (len ?df) = ''2''" "str_int 1 = ''1''"
    by (simp_all add: len_def str_int_def)
  show ?thesis unfolding p r' h n by simp
qed

section \<open>Reading the upload\<close>

text \<open>
  C7. When the extension of the file name, lower-cased, is none of \<open>csv\<close>, \<open>xlsx\<close>,
  \<open>json\<close>, \<open>txt\<close>, \<open>pdf\<close>, \<open>docx\<close>, \<open>read_uploaded_file\<close> shows the error
  \<open>Unsupported file type\<close> and stops the script run. The handler then shows nothing
  else: no preview, no message of the cleaning block, no metric and no download
  button.
\<close>

theorem unsupported_extension_stops:
  assumes "file_extension uploaded \<notin> set recognized"
  shows "read_uploaded_file lib uploaded =
      ([Error (''Unsupported file type: .'' @ file_extension uploaded)], Stopped) \<and>
    upload_handler lib uploaded =
      ([Error (''Unsupported file type: .'' @ file_extension uploaded)], True) \<and>
    \<not> list_ex is_download (fst (upload_handler lib uploaded))"
proof -
  have r: "read_uploaded_file lib uploaded =
      ([Error (''Unsupported file type: .'' @ file_extension uploaded)], Stopped)"
    using assms by (simp add: read_uploaded_file_def recognized_def)
  then have h: "upload_handler lib uploaded =
      ([Error (''Unsupported file type: .'' @ file_extension uploaded)], True)"
    by (simp add: upload_handler_def)
  show ?thesis using r h by (simp add: is_download_def)
qed

lemma file_extension_xml: "file_extension \<lparr>name = ''Report.v2.XML'', content = c\<rparr> = ''xml''"
  by (simp add: file_extension_def lower_def lower_char_def)

text \<open>
  The extension is matched without regard to case and is what follows the last dot:
  \<open>Report.v2.XML\<close> is refused as \<open>.xml\<close>.
\<close>

theorem unsupported_extension_stops_witness:
  "upload_handler sample_library \<lparr>name = ''Report.v2.XML'', content = ''<rows/>''\<rparr>
     = ([Error ''Unsupported file type: .xml''], True)"
  using unsupported_extension_stops[of "\<lparr>name = ''Report.v2.XML'', content = ''<rows/>''\<rparr>"
      sample_library]
  by (simp add: file_extension_xml recognized_def)

lemma extract_pages_all:
  "list_all page_returns pages \<Longrightarrow>
     extract_pages pages text_content = Inr (text_content @ concat (map page_text pages))"
proof (induction pages arbitrary: text_content)
  case Nil
  then show ?case by simp
next
  case (Cons p pages)
  then obtain extracted where p: "p = Inr extracted"
    by (cases p) (auto simp: page_returns_def)
  from Cons show ?case
    by (cases extracted) (simp_all add: p page_text_def)
qed

lemma extract_pages_raises:
  "list_all page_returns before \<Longrightarrow>
     extract_pages (before @ Inl e # after) text_content = Inl e"
proof (induction before arbitrary: text_content)
  case Nil
  then show ?case by simp
next
  case (Cons p before)
  then obtain extracted where p: "p = Inr extracted"
    by (cases p) (auto simp: page_returns_def)
  from Cons show ?case by (simp add: p)
qed

lemma strip_trimmed:
  "strip s = [] \<or> (\<not> isspace (hd (strip s)) \<and> \<not> isspace (last (strip s)))"
proof (cases "strip s = []")
  case True
  then show ?thesis by simp
next
  case False
  let ?ys = "dropWhile isspace s"
  let ?zs = "dropWhile isspace (rev ?ys)"
  have st: "strip s = rev ?zs" by (simp add: strip_def)
  with False have zs: "?zs \<noteq> []" by simp
  have ys: "?ys \<noteq> []"
  proof
    assume "?ys = []"
    then have "rev ?ys = []" by (simp only: rev.simps)
    then have "?zs = []" by (simp only: dropWhile.simps)
    with zs show False by simp
  qed
  have l: "\<not> isspace (hd ?zs)" using zs by (rule hd_dropWhile)
  have "\<not> isspace (hd ?ys)" using ys by (rule hd_dropWhile)
  then have "\<not> isspace (last (rev ?ys))" using ys by (simp add: last_rev)
  moreover have "rev ?ys = takeWhile isspace (rev ?ys) @ ?zs"
    by simp
  then have "last (rev ?ys) = last ?zs"
    using zs by (metis last_appendR)
  ultimately have "\<not> isspace (last ?zs)" by simp
  then have h: "\<not> isspace (hd (rev ?zs))" using zs by (simp add: hd_rev)
  from l zs have "\<not> isspace (last (rev ?zs))" by (simp add: last_rev)
  with h show ?thesis by (simp add: st)
qed

lemma splitlines_from_no_break:
  "\<not> list_ex is_linebreak cur \<Longrightarrow>
     \<forall>line \<in> set (splitlines_from cur s). \<not> list_ex is_linebreak line"
proof (induction cur s rule: splitlines_from.induct)
  case (1 cur)
  then show ?case by simp
next
  case (2 cur c cs)
  let ?crlf = "c = CHR 0x0D \<and> cs \<noteq> [] \<and> hd cs = CHR 0x0A"
  have nil: "\<not> list_ex is_linebreak []" by simp
  show ?case
  proof (cases ?crlf)
    case True
    have "splitlines_from cur (c # cs) = cur # splitlines_from [] (tl cs)"
      by (simp only: splitlines_from.simps if_P[OF True])
    with "2.IH"(1)[OF True nil] "2.prems" show ?thesis by simp
  next
    case False
    show ?thesis
    proof (cases "is_linebreak c")
      case True
      have "splitlines_from cur (c # cs) = cur # splitlines_from [] cs"
        by (simp only: splitlines_from.simps if_not_P[OF False] if_P[OF True])
      with "2.IH"(2)[OF False True nil] "2.prems" show ?thesis by simp
    next
      case nb: False
      from "2.prems" nb have "\<not> list_ex is_linebreak (cur @ [c])" by simp
      moreover have "splitlines_from cur (c # cs) = splitlines_from (cur @ [c]) cs"
        by (simp only: splitlines_from.simps if_not_P[OF False] if_not_P[OF nb])
      ultimately show ?thesis using "2.IH"(3)[OF False nb] by simp
    qed
  qed
qed

lemma splitlines_no_break: "line \<in> set (splitlines s) \<Longrightarrow> \<not> list_ex is_linebreak line"
  using splitlines_from_no_break[of "[]" s] by (simp add: splitlines_def)

text \<open>
  C8, as the code has it. The frame of a text has the one column \<open>text_content\<close> and
  one row per line of \<open>splitlines\<close>, holding the line stripped: no line holds a line
  boundary, and a stripped line neither begins nor ends with white space. The text is
  the decoded content of a \<open>txt\<close> file, the paragraphs of a \<open>docx\<close> document joined by
  line feeds, and for a \<open>pdf\<close> the texts of the pages put one after the other without
  separator, a page whose \<open>extract_text()\<close> returns \<open>None\<close> adding nothing. When
  \<open>extract_text()\<close> raises on a page the loop is left: no frame is built, and the
  handler shows the exception as \<open>An error occurred\<close>.
\<close>

theorem text_like_ingestion:
  "columns (text_frame t :: 'n frame) = [''text_content''] \<and>
   rows (text_frame t :: 'n frame) = map (\<lambda>line. [Str (strip line)]) (splitlines t) \<and>
   (\<forall>line \<in> set (splitlines t).
      \<not> list_ex is_linebreak line \<and>
      (strip line = [] \<or>
       (\<not> isspace (hd (strip line)) \<and> \<not> isspace (last (strip line))))) \<and>
   (file_extension uploaded = ''txt'' \<and> decode_utf8 lib (content uploaded) = Inr t \<longrightarrow>
      read_uploaded_file lib uploaded = ([], Returned (text_frame t))) \<and>
   (file_extension uploaded = ''docx'' \<and> Document lib (content uploaded) = Inr paragraphs
      \<longrightarrow> read_uploaded_file lib uploaded
            = ([], Returned (text_frame (join [CHR 0x0A] paragraphs)))) \<and>
   (file_extension uploaded = ''pdf'' \<and> PdfReader lib (content uploaded) = Inr pages \<and>
    list_all page_returns pages \<longrightarrow>
      read_uploaded_file lib uploaded
        = ([], Returned (text_frame (concat (map page_text pages))))) \<and>
   (file_extension uploaded = ''pdf'' \<and>
    PdfReader lib (content uploaded) = Inr (before @ Inl e # after) \<and>
    list_all page_returns before \<longrightarrow>
      read_uploaded_file lib uploaded = ([], Raised e) \<and>
      upload_handler lib uploaded = ([Error (''An error occurred: '' @ e)], False))"
proof -
  have a: "columns (text_frame t :: 'n frame) = [''text_content'']"
    by (simp add: text_frame_def)
  have b: "rows (text_frame t :: 'n frame) = map (\<lambda>line. [Str (strip line)]) (splitlines t)"
    by (simp add: text_frame_def)
  have c: "\<forall>line \<in> set (splitlines t).
      \<not> list_ex is_linebreak line \<and>
      (strip line = [] \<or>
       (\<not> isspace (hd (strip line)) \<and> \<not> isspace (last (strip line))))"
    using splitlines_no_break[of _ t] strip_trimmed by blast
  have d: "file_extension uploaded = ''txt'' \<and> decode_utf8 lib (content uploaded) = Inr t
      \<longrightarrow> read_uploaded_file lib uploaded = ([], Returned (text_frame t))"
    by (simp add: read_uploaded_file_def)
  have e: "file_extension uploaded = ''docx'' \<and>
      Document lib (content uploaded) = Inr paragraphs
      \<longrightarrow> read_uploaded_file lib uploaded
            = ([], Returned (text_frame (join [CHR 0x0A] paragraphs)))"
    by (simp add: read_uploaded_file_def)
  have f: "file_extension uploaded = ''pdf'' \<and> PdfReader lib (content uploaded) = Inr pages \<and>
    list_all page_returns pages \<longrightarrow>
      read_uploaded_file lib uploaded
        = ([], Returned (text_frame (concat (map page_text pages))))"
    by (simp add: read_uploaded_file_def extract_pages_all)
  have g: "file_extension uploaded = ''pdf'' \<and>
    PdfReader lib (content uploaded) = Inr (before @ Inl e # after) \<and>
    list_all page_returns before \<longrightarrow>
      read_uploaded_file lib uploaded = ([], Raised e) \<and>
      upload_handler lib uploaded = ([Error (''An error occurred: '' @ e)], False)"
    by (simp add: read_uploaded_file_def upload_handler_def extract_pages_raises)
  from a b c d e f g show ?thesis by blast
qed

lemma file_extension_pdf: "file_extension \<lparr>name = ''scan.PDF'', content = c\<rparr> = ''pdf''"
  by (simp add: file_extension_def lower_def lower_char_def)

lemma empty_page_text:
  "text_frame (concat (map page_text
      [Inr (Some ('' one '' @ [CHR 0x0A] @ ''two'')), Inr None, Inr (Some ''''),
       Inr (Some (''2'' @ [CHR 0x0A, CHR 0x0A] @ ''three'' @ [CHR 0x0A]))]))
   = (\<lparr>columns = [''text_content''],
       rows = [[Str ''one''], [Str ''two2''], [Str ''''], [Str ''three'']]\<rparr> :: int frame)"
  by code_simp

text \<open>
  A document whose second page has no text and whose third page is empty: the two add
  nothing, and the last line of the first page runs into the first line of the fourth.
\<close>

theorem text_like_ingestion_witness:
  "read_uploaded_file empty_page_library \<lparr>name = ''scan.PDF'', content = []\<rparr>
     = ([], Returned \<lparr>columns = [''text_content''],
          rows = [[Str ''one''], [Str ''two2''], [Str ''''], [Str ''three'']]\<rparr>)"
proof -
  let ?pages = "[Inr (Some ('' one '' @ [CHR 0x0A] @ ''two'')), Inr None, Inr (Some ''''),
       Inr (Some (''2'' @ [CHR 0x0A, CHR 0x0A] @ ''three'' @ [CHR 0x0A]))] :: page list"
  have r: "PdfReader empty_page_library (content \<lparr>name = ''scan.PDF'', content = []\<rparr>)
      = Inr ?pages"
    by (simp add: empty_page_library_def)
  have p: "list_all page_returns ?pages"
    by (simp add: page_returns_def)
  from text_like_ingestion[of _ "\<lparr>name = ''scan.PDF'', content = []\<rparr>" empty_page_library
      _ ?pages] file_extension_pdf r p
  have "read_uploaded_file empty_page_library \<lparr>name = ''scan.PDF'', content = []\<rparr>
        = ([], Returned (text_frame (concat (map page_text ?pages))))"
    by blast
  then show ?thesis by (simp only: empty_page_text)
qed

text \<open>
  A page that cannot be read does not degrade to an empty contribution: the document
  of \<open>failing_page_library\<close> is not read at all, though its first and third page have
  text.
\<close>

theorem failing_page_aborts_document:
  "read_uploaded_file failing_page_library \<lparr>name = ''scan.PDF'', content = []\<rparr>
     = ([], Raised ''page 2 cannot be read'') \<and>
   upload_handler failing_page_library \<lparr>name = ''scan.PDF'', content = []\<rparr>
     = ([Error ''An error occurred: page 2 cannot be read''], False)"
  by (simp add: upload_handler_def read_uploaded_file_def file_extension_pdf
      failing_page_library_def)

end
